theory Spec2Isabelle
  imports Complex_Main
begin

section \<open>Smart Expense Tracker API: process lifecycle and request handling\<close>

text \<open>
  A shallow embedding of \<^verbatim>\<open>index.js\<close> (the entry point of the API) and of the protected
  router. The Node process is a record of the state the program reads and writes; the
  request handlers are functions of that state and the request; the asynchronous parts
  (the awaited \<^verbatim>\<open>mongoose.connect\<close>, the \<^verbatim>\<open>setTimeout\<close> retry) are tasks in a queue that an
  event loop runs one at a time, as Node does.
\<close>

subsection \<open>JavaScript values, requests and responses\<close>

text \<open>
  The values that occur in the JSON bodies. \<open>JUndefined\<close> is the value of a missing
  property; \<open>JIsoTime t\<close> stands for the string \<^verbatim>\<open>new Date(t).toISOString()\<close> of the instant
  \<open>t\<close> (milliseconds since the epoch).
\<close>

datatype jsval =
    JUndefined
  | JBool bool
  | JStr string
  | JNum rat
  | JIsoTime nat

datatype AuthError = Missing | Invalid

text \<open>
  A response body: what \<^verbatim>\<open>res.json\<close> got (an object literal, its keys in order), what
  \<^verbatim>\<open>res.send\<close> got, or the structured body of an authentication failure with its
  discriminator.
\<close>

datatype body =
    Json "(string \<times> jsval) list"
  | Text string
  | AuthFailure AuthError

record response =
  statusCode :: nat
  payload :: body

text \<open>An error object handed to \<^verbatim>\<open>next(error)\<close>; each property may be missing.\<close>

record js_error =
  message :: "string option"
  status :: "nat option"
  stack :: "string option"

text \<open>A request; \<open>httpMethod\<close> is \<^verbatim>\<open>req.method\<close> and \<open>user\<close> is \<^verbatim>\<open>req.user\<close>.\<close>

record request =
  httpMethod :: string
  path :: string
  headers :: "string \<rightharpoonup> string"
  user :: "string option"

text \<open>What a middleware does with a request: answer it, pass it on, or pass an error on.\<close>

datatype mw_result =
    Respond response
  | Next request
  | NextErr js_error

definition keys :: "body \<Rightarrow> string list" where
  "keys b = (case b of Json kvs \<Rightarrow> map fst kvs | _ \<Rightarrow> [])"

definition field :: "body \<Rightarrow> string \<Rightarrow> jsval option" where
  "field b k = (case b of Json kvs \<Rightarrow> map_of kvs k | _ \<Rightarrow> None)"

text \<open>
  The keys of the body as it is sent: \<^verbatim>\<open>res.json\<close> leaves out a property whose value is
  undefined.
\<close>

definition sent :: "body \<Rightarrow> string list" where
  "sent b =
     (case b of Json kvs \<Rightarrow> map fst (filter (\<lambda>kv. snd kv \<noteq> JUndefined) kvs) | _ \<Rightarrow> [])"

subsection \<open>The process\<close>

text \<open>
  \<open>process.env.X || d\<close>: an environment variable is a string or undefined, and the empty
  string is falsy as undefined is.
\<close>

definition falsy :: "string option \<Rightarrow> bool" where
  "falsy v = (case v of None \<Rightarrow> True | Some s \<Rightarrow> s = [])"

definition or_else :: "string option \<Rightarrow> string \<Rightarrow> string" where
  "or_else v d = (case v of None \<Rightarrow> d | Some s \<Rightarrow> if s = [] then d else s)"

text \<open>\<^verbatim>\<open>const PORT = process.env.PORT || 5001\<close>: the string of the environment, or the number.\<close>

datatype port = PortStr string | PortNum nat

text \<open>
  What a server listens on, and how a call of \<^verbatim>\<open>app.listen\<close> ends: the server listens on an
  address, or the call throws (a port out of range) or the bind fails (the address is in
  use) with the given code.
\<close>

datatype address = Tcp nat | Pipe string

datatype listen_result = Listening address | ListenFails string

datatype signal = SIGTERM | SIGINT

datatype console_line =
    MongoConnected
  | MongoConnectionError int string
  | RetryingIn5Seconds
  | MongoFailedAfterRetries
  | ReceivedSignal signal
  | HttpServerClosed
  | MongoConnectionClosed
  | ShutdownCompleted
  | ShutdownError string
  | UncaughtException string
  | ApiStarted
  | ServerRunningOn port
  | EnvironmentIs string
  | MongoDBStatus bool

text \<open>
  What the process does to the outside, in order: console output, \<^verbatim>\<open>app.listen(port, ...)\<close>,
  \<^verbatim>\<open>server.close\<close>, \<^verbatim>\<open>mongoose.connection.close(force)\<close> and \<^verbatim>\<open>process.exit(code)\<close>.
\<close>

datatype effect =
    Console console_line
  | AppListen port
  | ServerClose
  | MongooseClose bool
  | Exit nat

text \<open>
  A task waiting in the event loop: \<open>Retry n\<close> is the \<^verbatim>\<open>setTimeout\<close> callback that will call
  \<^verbatim>\<open>connectToMongoDB(n)\<close> (\<open>n\<close> is the \<^verbatim>\<open>retries - 1\<close> of the closure); \<open>Settle n r\<close> is the rest of
  \<^verbatim>\<open>connectToMongoDB(n)\<close> after its \<^verbatim>\<open>await mongoose.connect(...)\<close>, where \<open>r\<close> is the message of
  the rejection, or \<open>None\<close> when the connection was made. \<open>HttpClosed r\<close> is the rest of
  \<^verbatim>\<open>gracefulShutdown\<close> after its first \<^verbatim>\<open>await\<close>, resumed by the callback of \<^verbatim>\<open>server.close\<close> with
  the error \<open>r\<close>, if any; \<open>MongoClosed r\<close> is its rest after the second \<^verbatim>\<open>await\<close>, where \<open>r\<close> is the
  rejection of \<^verbatim>\<open>mongoose.connection.close\<close>, if any.
\<close>

datatype task =
    Retry int
  | Settle int "string option"
  | HttpClosed "string option"
  | MongoClosed "string option"

text \<open>
  The state of the Node process: \<^verbatim>\<open>process.env\<close>, the constant \<^verbatim>\<open>PORT\<close>, the time in
  milliseconds and the time of the start, the tasks waiting in the event loop with the
  time each is due, the times at which \<^verbatim>\<open>mongoose.connect\<close> was called,
  \<^verbatim>\<open>mongoose.connection.readyState\<close>, the address the server listens on (\<open>None\<close> while
  \<^verbatim>\<open>server.listening\<close> is false), for each request in flight the time at which it will
  have been answered and its connection ended, the effects so far, and the exit code
  once \<^verbatim>\<open>process.exit\<close> was called.
\<close>

record process =
  env :: "string \<rightharpoonup> string"
  PORT :: port
  clock :: nat
  bootTime :: nat
  pending :: "(nat \<times> task) list"
  attempts :: "nat list"
  readyState :: nat
  listening :: "address option"
  inflight :: "nat list"
  effects :: "effect list"
  exitCode :: "nat option"

text \<open>
  The collaborators the program calls and does not implement: how long the \<open>k\<close>-th call of
  \<^verbatim>\<open>mongoose.connect\<close> takes and whether it rejects (with which message); the error, if
  any, that \<^verbatim>\<open>server.close\<close> hands to its callback; the rejection, if any, of
  \<^verbatim>\<open>mongoose.connection.close\<close>; the token verification behind the authentication
  middleware; the router of the public authentication routes; the stack the runtime
  records for a new \<^verbatim>\<open>Error\<close>; how long \<^verbatim>\<open>mongoose.connection.close\<close> takes; the port the
  operating system gives when port 0 is asked for; the ports that are in use; and what
  \<^verbatim>\<open>app.listen\<close> does with a string that is not a decimal number.
\<close>

record world =
  connectOutcome :: "nat \<Rightarrow> nat \<times> string option"
  serverCloseError :: "string option"
  mongoCloseError :: "string option"
  verifyToken :: "string \<Rightarrow> string option"
  authRoutes :: "request \<Rightarrow> mw_result"
  stackOf :: "string \<Rightarrow> string"
  mongoCloseDelay :: nat
  ephemeralPort :: nat
  portInUse :: "nat \<Rightarrow> bool"
  listenOther :: "string \<Rightarrow> listen_result"

definition NODE_ENV :: "process \<Rightarrow> string option" where
  "NODE_ENV p = env p ''NODE_ENV''"

subsection \<open>Decimal text of a number\<close>

definition digit :: "nat \<Rightarrow> char" where
  "digit d = ''0123456789'' ! (d mod 10)"

function decimal :: "nat \<Rightarrow> string" where
  "decimal n = (if n < 10 then [digit n] else decimal (n div 10) @ [digit (n mod 10)])"
  by pat_completeness auto
termination
  by (relation "measure id") auto

declare decimal.simps [simp del]

definition port_text :: "port \<Rightarrow> string" where
  "port_text q = (case q of PortStr s \<Rightarrow> s | PortNum n \<Rightarrow> decimal n)"

subsection \<open>Route handlers of \<^verbatim>\<open>index.js\<close>\<close>

definition read_PORT :: "(string \<rightharpoonup> string) \<Rightarrow> port" where
  "read_PORT e =
     (case e ''PORT'' of None \<Rightarrow> PortNum 5001 | Some s \<Rightarrow> if s = [] then PortNum 5001 else PortStr s)"

definition uptime :: "process \<Rightarrow> rat" where
  "uptime p = of_nat (clock p - bootTime p) / 1000"

definition healthHandler :: "process \<Rightarrow> response" where
  "healthHandler p =
     \<lparr>statusCode = 200,
      payload = Json
        [(''status'', JStr ''healthy''),
         (''timestamp'', JIsoTime (clock p)),
         (''uptime'', JNum (uptime p)),
         (''environment'', JStr (or_else (NODE_ENV p) ''development''))]\<rparr>"

definition rootHandler :: "process \<Rightarrow> response" where
  "rootHandler p =
     \<lparr>statusCode = 200,
      payload = Json
        [(''message'', JStr (''Smart Expense Tracker API is running on port '' @ port_text (PORT p))),
         (''status'', JStr ''success''),
         (''version'', JStr (or_else (env p ''npm_package_version'') ''1.0.0'')),
         (''environment'', JStr (or_else (NODE_ENV p) ''development''))]\<rparr>"

definition notFound :: "world \<Rightarrow> request \<Rightarrow> js_error" where
  "notFound w req =
     (let msg = ''Route not found: '' @ httpMethod req @ '' '' @ path req
      in \<lparr>message = Some msg, status = Some 404, stack = Some (stackOf w msg)\<rparr>)"

text \<open>\<^verbatim>\<open>error.status || 500\<close>: a missing status and the status 0 are falsy.\<close>

definition status_or_500 :: "js_error \<Rightarrow> nat" where
  "status_or_500 e = (case status e of None \<Rightarrow> 500 | Some s \<Rightarrow> if s = 0 then 500 else s)"

definition js_of :: "string option \<Rightarrow> jsval" where
  "js_of v = (case v of None \<Rightarrow> JUndefined | Some s \<Rightarrow> JStr s)"

text \<open>
  The global error handler of \<^verbatim>\<open>index.js\<close>. In the object literal, the spread of
  \<^verbatim>\<open>isDevelopment && { stack: error.stack }\<close> adds the key \<^verbatim>\<open>stack\<close> when \<^verbatim>\<open>isDevelopment\<close> is true
  and nothing when it is false.
\<close>

definition errorHandler :: "process \<Rightarrow> js_error \<Rightarrow> response" where
  "errorHandler p e =
     (let isDevelopment = (NODE_ENV p \<noteq> Some ''production'')
      in \<lparr>statusCode = status_or_500 e,
          payload = Json
            ([(''success'', JBool False),
              (''error'', if isDevelopment then js_of (message e) else JStr ''Internal Server Error'')]
             @ (if isDevelopment then [(''stack'', js_of (stack e))] else []))\<rparr>)"

text \<open>
  The global error handler of the two shorter variants of \<^verbatim>\<open>index.js\<close>:
  \<^verbatim>\<open>error: error.message || "Internal Server Error"\<close>. It runs in a process as the other
  handlers do, and reads nothing of it.
\<close>

definition errorHandler_variant :: "process \<Rightarrow> js_error \<Rightarrow> response" where
  "errorHandler_variant p e =
     \<lparr>statusCode = status_or_500 e,
      payload = Json
        [(''success'', JBool False),
         (''error'', JStr (or_else (message e) ''Internal Server Error''))]\<rparr>"

subsection \<open>The protected router\<close>

text \<open>
  Modelled from the spec: the authentication middleware (\<^verbatim>\<open>../middleware/auth.js\<close>, imported
  by the protected router) is not among the sources. The credential is the value of the
  authorization header of the request.
\<close>

definition credential :: "request \<Rightarrow> string option" where
  "credential req = headers req ''authorization''"

text \<open>
  Modelled from the spec: \<open>verify(credential) \<rightarrow> Result<Identity, AuthError>\<close> of the missing
  middleware. An absent credential fails with \<open>Missing\<close>; a present one that the token
  verification (a collaborator) does not accept fails with \<open>Invalid\<close>; otherwise the
  identity encoded in the credential is returned.
\<close>

definition verify :: "world \<Rightarrow> string option \<Rightarrow> AuthError + string" where
  "verify w c =
     (case c of
        None \<Rightarrow> Inl Missing
      | Some tok \<Rightarrow> (case verifyToken w tok of None \<Rightarrow> Inl Invalid | Some uid \<Rightarrow> Inr uid))"

text \<open>
  Modelled from the spec: the missing middleware as the router uses it. On failure it
  answers 401 with the structured error body and calls nothing downstream; on success it
  attaches the identity to the request (\<^verbatim>\<open>req.user\<close>, which the route handler reads) and lets
  the request proceed.
\<close>

definition auth :: "world \<Rightarrow> request \<Rightarrow> mw_result" where
  "auth w req =
     (case verify w (credential req) of
        Inl e \<Rightarrow> Respond \<lparr>statusCode = 401, payload = AuthFailure e\<rparr>
      | Inr uid \<Rightarrow> Next (req\<lparr>user := Some uid\<rparr>))"

text \<open>The route callback of \<^verbatim>\<open>router.get("/protected", auth, ...)\<close>; \<^verbatim>\<open>res.json\<close> answers 200.\<close>

definition protectedHandler :: "request \<Rightarrow> mw_result" where
  "protectedHandler req =
     Respond \<lparr>statusCode = 200,
       payload = Json
         [(''message'', JStr ''This is protected data accessible only with valid token''),
          (''userId'', js_of (user req))]\<rparr>"

subsection \<open>Dispatch\<close>

text \<open>
  The stack of an Express application: each layer has a name, the requests it matches
  and its callback. The layers are tried in the order of their registration; a callback
  that answers or passes an error ends the walk. The result carries the names of the
  callbacks that were run.
\<close>

type_synonym layer = "string \<times> (request \<Rightarrow> bool) \<times> (request \<Rightarrow> mw_result)"

fun run_stack :: "layer list \<Rightarrow> request \<Rightarrow> string list \<times> mw_result" where
  "run_stack [] req = ([], Next req)"
| "run_stack ((name, matches, callback) # ls) req =
     (if matches req then
        (case callback req of
           Next req' \<Rightarrow> (case run_stack ls req' of (tr, r) \<Rightarrow> (name # tr, r))
         | r \<Rightarrow> ([name], r))
      else run_stack ls req)"

definition route :: "string \<Rightarrow> string \<Rightarrow> request \<Rightarrow> bool" where
  "route m pth req = (httpMethod req = m \<and> path req = pth)"

definition under :: "string \<Rightarrow> request \<Rightarrow> bool" where
  "under pre req = (path req = pre \<or> take (length pre + 1) (path req) = pre @ ''/'')"

text \<open>
  The layers \<^verbatim>\<open>index.js\<close> registers, in its order. The layers of third-party middleware in
  front of them (CORS, static files, body parsers) hand the request on and are left out.
  The request logger is registered outside production only. The protected router is
  mounted under \<^verbatim>\<open>/api\<close>, so its route \<^verbatim>\<open>/protected\<close> is \<^verbatim>\<open>/api/protected\<close>. A route matches its
  method and its path as they are written. What the handlers print to the console while
  a request is answered (the logger's line, the line of the error handler) is not part
  of the result.
\<close>

definition layers :: "world \<Rightarrow> process \<Rightarrow> layer list" where
  "layers w p =
     (if NODE_ENV p \<noteq> Some ''production'' then [(''logger'', \<lambda>_. True, Next)] else [])
     @ [(''health'', route ''GET'' ''/health'', \<lambda>_. Respond (healthHandler p)),
        (''root'', route ''GET'' ''/'', \<lambda>_. Respond (rootHandler p)),
        (''authRoutes'', under ''/api/auth'', authRoutes w),
        (''auth'', route ''GET'' ''/api/protected'', auth w),
        (''protected'', route ''GET'' ''/api/protected'', protectedHandler),
        (''notFound'', \<lambda>_. True, \<lambda>req. NextErr (notFound w req))]"

definition app :: "world \<Rightarrow> process \<Rightarrow> request \<Rightarrow> string list \<times> response" where
  "app w p req =
     (case run_stack (layers w p) req of
        (tr, Respond r) \<Rightarrow> (tr, r)
      | (tr, NextErr e) \<Rightarrow> (tr @ [''errorHandler''], errorHandler p e)
      | (tr, Next _) \<Rightarrow> (tr, \<lparr>statusCode = 404, payload = Text ''Not Found''\<rparr>))"

text \<open>A request is answered while the process lives and its server listens.\<close>

definition serve :: "world \<Rightarrow> process \<Rightarrow> request \<Rightarrow> response option" where
  "serve w p req =
     (if exitCode p = None \<and> listening p \<noteq> None then Some (snd (app w p req)) else None)"

subsection \<open>Connecting to MongoDB\<close>

definition say :: "console_line \<Rightarrow> process \<Rightarrow> process" where
  "say l p = p\<lparr>effects := effects p @ [Console l]\<rparr>"

definition process_exit :: "nat \<Rightarrow> process \<Rightarrow> process" where
  "process_exit c p = p\<lparr>effects := effects p @ [Exit c], exitCode := Some c\<rparr>"

text \<open>The \<^verbatim>\<open>catch\<close> block of \<^verbatim>\<open>connectToMongoDB\<close>.\<close>

definition catchBlock :: "int \<Rightarrow> string \<Rightarrow> process \<Rightarrow> process" where
  "catchBlock retries msg p =
     (let p1 = say (MongoConnectionError retries msg) p
      in if retries > 0 then
           (say RetryingIn5Seconds p1)\<lparr>pending := pending p1 @ [(clock p1 + 5000, Retry (retries - 1))]\<rparr>
         else
           (let p2 = say MongoFailedAfterRetries p1
            in if NODE_ENV p2 \<noteq> Some ''production'' then process_exit 1 p2 else p2))"

text \<open>
  \<^verbatim>\<open>connectToMongoDB(retries)\<close> up to its \<^verbatim>\<open>await\<close>: the \<^verbatim>\<open>throw\<close> for a missing URI is inside the
  \<^verbatim>\<open>try\<close>, so the \<^verbatim>\<open>catch\<close> block runs at once; otherwise \<^verbatim>\<open>mongoose.connect\<close> is called and the
  rest of the function waits in the queue until the call settles. \<open>attempts\<close> records the
  time of each call. Mongoose keeps \<^verbatim>\<open>readyState\<close>: 2 while connecting, 1 once connected, 0
  when disconnected.
\<close>

definition connectToMongoDB :: "world \<Rightarrow> int \<Rightarrow> process \<Rightarrow> process" where
  "connectToMongoDB w retries p =
     (if falsy (env p ''MONGO_URI'') then
        catchBlock retries ''MONGO_URI environment variable is not set'' p
      else
        (case connectOutcome w (length (attempts p)) of
           (d, r) \<Rightarrow>
             p\<lparr>attempts := attempts p @ [clock p],
               readyState := 2,
               pending := pending p @ [(clock p + d, Settle retries r)]\<rparr>))"

text \<open>\<^verbatim>\<open>connectToMongoDB(retries)\<close> after its \<^verbatim>\<open>await\<close>.\<close>

definition settle :: "int \<Rightarrow> string option \<Rightarrow> process \<Rightarrow> process" where
  "settle retries r p =
     (case r of
        None \<Rightarrow> say MongoConnected (p\<lparr>readyState := 1\<rparr>)
      | Some msg \<Rightarrow> catchBlock retries msg (p\<lparr>readyState := 0\<rparr>))"

subsection \<open>Graceful shutdown\<close>

text \<open>
  The second step of \<^verbatim>\<open>gracefulShutdown\<close>, the guarded close of the database connection:
  the call of \<^verbatim>\<open>mongoose.connection.close(false)\<close>, and what its outcome leaves. A close that
  resolved leaves the connection disconnected (\<^verbatim>\<open>readyState\<close> 0); one that rejected throws
  its error.
\<close>

definition callMongoClose :: "process \<Rightarrow> process" where
  "callMongoClose p = p\<lparr>effects := effects p @ [MongooseClose False]\<rparr>"

definition mongoCloseSettled :: "string option \<Rightarrow> process \<Rightarrow> string \<times> process + process" where
  "mongoCloseSettled r p =
     (case r of
        Some err \<Rightarrow> Inl (err, p)
      | None \<Rightarrow> Inr (say MongoConnectionClosed (p\<lparr>readyState := 0\<rparr>)))"

text \<open>
  The guarded block on its own, from its \<^verbatim>\<open>if\<close> to the end of its \<^verbatim>\<open>await\<close>, with nothing else
  running in between: the process after it, or the error thrown and the process at that
  point.
\<close>

definition closeMongo :: "world \<Rightarrow> process \<Rightarrow> string \<times> process + process" where
  "closeMongo w p =
     (if readyState p \<noteq> 0 then mongoCloseSettled (mongoCloseError w) (callMongoClose p)
      else Inr p)"

text \<open>The \<^verbatim>\<open>catch\<close> block of \<^verbatim>\<open>gracefulShutdown\<close>, and the end of its \<^verbatim>\<open>try\<close> block.\<close>

definition shutdownFailed :: "string \<Rightarrow> process \<Rightarrow> process" where
  "shutdownFailed err p = process_exit 1 (say (ShutdownError err) p)"

definition shutdownDone :: "process \<Rightarrow> process" where
  "shutdownDone p = process_exit 0 (say ShutdownCompleted p)"

text \<open>
  \<^verbatim>\<open>gracefulShutdown\<close> is an \<^verbatim>\<open>async\<close> function with two \<^verbatim>\<open>await\<close>s; at each it returns to the event
  loop, and its rest is a task that runs when the awaited call has settled. Other tasks
  and other signals run in between; the function keeps no note that a shutdown is under
  way.

  The second step up to its \<^verbatim>\<open>await\<close>: if the connection is not disconnected the close is
  called and the rest waits for it; otherwise the function runs to its end.
\<close>

definition closeDatabase :: "world \<Rightarrow> process \<Rightarrow> process" where
  "closeDatabase w p =
     (if readyState p \<noteq> 0 then
        (callMongoClose p)
          \<lparr>pending := pending p @ [(clock p + mongoCloseDelay w, MongoClosed (mongoCloseError w))]\<rparr>
      else shutdownDone p)"

definition afterMongoClose :: "string option \<Rightarrow> process \<Rightarrow> process" where
  "afterMongoClose r p =
     (case mongoCloseSettled r p of
        Inl (err, p1) \<Rightarrow> shutdownFailed err p1
      | Inr p1 \<Rightarrow> shutdownDone p1)"




text \<open>\<^verbatim>\<open>gracefulShutdown\<close> after its first \<^verbatim>\<open>await\<close>.\<close>

definition afterServerClose :: "world \<Rightarrow> string option \<Rightarrow> process \<Rightarrow> process" where
  "afterServerClose w r p =
     (case r of
        Some err \<Rightarrow> shutdownFailed err p
      | None \<Rightarrow> closeDatabase w (say HttpServerClosed p))"



subsection \<open>The event loop\<close>

definition exec :: "world \<Rightarrow> task \<Rightarrow> process \<Rightarrow> process" where
  "exec w k p =
     (case k of
        Retry n \<Rightarrow> connectToMongoDB w n p
      | Settle n r \<Rightarrow> settle n r p
      | HttpClosed r \<Rightarrow> afterServerClose w r p
      | MongoClosed r \<Rightarrow> afterMongoClose r p)"

fun earliest :: "nat \<times> task \<Rightarrow> (nat \<times> task) list \<Rightarrow> nat \<times> task" where
  "earliest x [] = x"
| "earliest x (y # ys) = (if fst y < fst x then earliest y ys else earliest x ys)"

text \<open>One turn: the task that is due first leaves the queue and runs at its time.\<close>

definition step :: "world \<Rightarrow> process \<Rightarrow> process" where
  "step w p =
     (case pending p of
        [] \<Rightarrow> p
      | x # xs \<Rightarrow>
          (let due = earliest x xs
           in exec w (snd due)
                (p\<lparr>pending := remove1 due (x # xs), clock := max (clock p) (fst due)\<rparr>)))"

fun weight :: "nat \<times> task \<Rightarrow> nat" where
  "weight (t, Retry n) = 2 * nat n + 2"
| "weight (t, Settle n r) = 2 * nat n + 1"
| "weight (t, HttpClosed r) = 2"
| "weight (t, MongoClosed r) = 1"

text \<open>
  The loop runs the tasks until none is left or the process has exited. It ends because
  each task leaves at most one task behind, and a lighter one: a call of
  \<^verbatim>\<open>connectToMongoDB\<close> a call with a smaller budget, the first step of the shutdown its second
  step.
\<close>

function run :: "world \<Rightarrow> process \<Rightarrow> process" where
  "run w p = (if exitCode p \<noteq> None \<or> pending p = [] then p else run w (step w p))"
  by pat_completeness auto
termination
proof (relation "measure (\<lambda>(w, p). sum_list (map weight (pending p)))")
  show "wf (measure (\<lambda>(w, p). sum_list (map weight (pending p))))"
    by simp
next
  fix w :: world and p :: process
  assume "\<not> (exitCode p \<noteq> None \<or> pending p = [])"
  then obtain x xs where px: "pending p = x # xs"
    by (cases "pending p") auto
  define due where "due = earliest x xs"
  define q where "q = p\<lparr>pending := remove1 due (x # xs), clock := max (clock p) (fst due)\<rparr>"
  have "earliest y ys \<in> set (y # ys)" for y :: "nat \<times> task" and ys
    by (induction ys arbitrary: y) auto
  then have due_in: "due \<in> set (x # xs)"
    by (simp only: due_def)
  have "z \<in> set zs \<Longrightarrow> sum_list (map weight (remove1 z zs)) + weight z = sum_list (map weight zs)"
    for z :: "nat \<times> task" and zs
    by (induction zs) auto
  from this [OF due_in]
  have removed: "sum_list (map weight (pending q)) + weight due = sum_list (map weight (pending p))"
    by (simp add: q_def px)
  have caught: "pending (catchBlock n msg r) =
      pending r @ (if n > 0 then [(clock r + 5000, Retry (n - 1))] else [])" for n msg r
    by (simp add: catchBlock_def say_def process_exit_def Let_def)
  have "sum_list (map weight (pending (exec w k q))) < sum_list (map weight (pending q)) + weight (t, k)"
    for k t
    by (cases k)
      (auto simp: exec_def connectToMongoDB_def settle_def say_def caught
            afterServerClose_def afterMongoClose_def closeDatabase_def callMongoClose_def
            mongoCloseSettled_def shutdownFailed_def shutdownDone_def process_exit_def
            split: prod.splits option.splits)
  from this [of "snd due" "fst due"]
  have "sum_list (map weight (pending (step w p))) < sum_list (map weight (pending q)) + weight due"
    by (simp add: step_def px due_def q_def Let_def)
  with removed show "((w, step w p), (w, p)) \<in> measure (\<lambda>(w, p). sum_list (map weight (pending p)))"
    by simp
qed

declare run.simps [simp del]

subsection \<open>Start of the process\<close>

text \<open>
  How Node reads the first argument of \<^verbatim>\<open>listen\<close> as a port: a number is the port; a string
  of decimal digits is the port it denotes; any other string is left to the world.
\<close>

definition digit_value :: "char \<Rightarrow> nat option" where
  "digit_value c = map_of (zip ''0123456789'' [0, 1, 2, 3, 4, 5, 6, 7, 8, 9]) c"

fun read_decimal :: "nat \<Rightarrow> string \<Rightarrow> nat option" where
  "read_decimal acc [] = Some acc"
| "read_decimal acc (c # cs) =
     (case digit_value c of None \<Rightarrow> None | Some d \<Rightarrow> read_decimal (10 * acc + d) cs)"

definition port_number :: "port \<Rightarrow> nat option" where
  "port_number q =
     (case q of PortNum n \<Rightarrow> Some n | PortStr s \<Rightarrow> if s = [] then None else read_decimal 0 s)"

text \<open>
  \<^verbatim>\<open>app.listen(PORT, "0.0.0.0", ...)\<close>: a port above 65535 makes the call throw; port 0 asks the
  operating system for a free port; a port that is in use makes the bind fail; otherwise
  the server listens on the port.
\<close>

definition bindPort :: "world \<Rightarrow> nat \<Rightarrow> listen_result" where
  "bindPort w n =
     (if 65535 < n then ListenFails ''ERR_SOCKET_BAD_PORT''
      else if n = 0 then Listening (Tcp (ephemeralPort w))
      else if portInUse w n then ListenFails ''EADDRINUSE''
      else Listening (Tcp n))"

definition listenOutcome :: "world \<Rightarrow> port \<Rightarrow> listen_result" where
  "listenOutcome w q =
     (case port_number q of
        Some n \<Rightarrow> bindPort w n
      | None \<Rightarrow> (case q of PortStr s \<Rightarrow> listenOther w s | PortNum n \<Rightarrow> bindPort w n))"

text \<open>
  The module body, in its order: \<^verbatim>\<open>PORT\<close> is read, \<^verbatim>\<open>connectToMongoDB()\<close> is called with its
  default budget of 5 and returns at its \<^verbatim>\<open>await\<close>, then \<^verbatim>\<open>app.listen(PORT, "0.0.0.0", ...)\<close> is
  called. When the server listens, the callback prints its four lines. When the call
  throws or the bind fails, nothing catches the error, and the handler of
  \<^verbatim>\<open>uncaughtException\<close> prints it and exits with code 1.
\<close>

definition fresh :: "(string \<rightharpoonup> string) \<Rightarrow> nat \<Rightarrow> process" where
  "fresh e t =
     \<lparr>env = e, PORT = read_PORT e, clock = t, bootTime = t, pending = [], attempts = [],
      readyState = 0, listening = None, inflight = [], effects = [], exitCode = None\<rparr>"

definition listen :: "world \<Rightarrow> process \<Rightarrow> process" where
  "listen w p =
     (if exitCode p = None then
        (let p1 = p\<lparr>effects := effects p @ [AppListen (PORT p)]\<rparr>
         in case listenOutcome w (PORT p) of
              ListenFails code \<Rightarrow> process_exit 1 (say (UncaughtException code) p1)
            | Listening a \<Rightarrow>
                say (MongoDBStatus (readyState p = 1))
                  (say (EnvironmentIs (or_else (NODE_ENV p) ''development''))
                    (say (ServerRunningOn (PORT p))
                      (say ApiStarted (p1\<lparr>listening := Some a\<rparr>)))))
      else p)"


subsection \<open>Measures of a run, and sample inputs\<close>

text \<open>
  The times at which \<open>c\<close> calls of \<^verbatim>\<open>mongoose.connect\<close> start when each is rejected and retried:
  the first at \<open>t\<close>, each next one 5000 ms after the rejection of the one before. \<open>k\<close> is the
  number of the first call.
\<close>

fun starts :: "world \<Rightarrow> nat \<Rightarrow> nat \<Rightarrow> nat \<Rightarrow> nat list" where
  "starts w k t 0 = []"
| "starts w k t (Suc c) = t # starts w (Suc k) (t + fst (connectOutcome w k) + 5000) c"

text \<open>How often the \<^verbatim>\<open>catch\<close> block of \<^verbatim>\<open>connectToMongoDB\<close> has run: its first line is counted.\<close>

fun catches :: "effect list \<Rightarrow> nat" where
  "catches [] = 0"
| "catches (Console (MongoConnectionError n msg) # es) = Suc (catches es)"
| "catches (e # es) = catches es"

text \<open>
  A world in which every connection attempt is refused after 100 ms, both steps of the
  shutdown succeed, the close of the database takes 100 ms and no port is in use; a
  request; an environment with a database URI; a process that serves, is connected and
  has one request in flight that will be answered at 3000.
\<close>

definition sample_world :: world where
  "sample_world =
     \<lparr>connectOutcome = (\<lambda>k. (100, Some ''ECONNREFUSED'')),
      serverCloseError = None,
      mongoCloseError = None,
      verifyToken = (\<lambda>tok. if tok = ''Bearer good'' then Some ''user-42'' else None),
      authRoutes = Next,
      stackOf = (\<lambda>msg. ''Error: '' @ msg),
      mongoCloseDelay = 100,
      ephemeralPort = 49152,
      portInUse = (\<lambda>n. False),
      listenOther = (\<lambda>s. ListenFails ''ERR_SOCKET_BAD_PORT'')\<rparr>"

definition get :: "string \<Rightarrow> (string \<rightharpoonup> string) \<Rightarrow> request" where
  "get pth hs = \<lparr>httpMethod = ''GET'', path = pth, headers = hs, user = None\<rparr>"

definition with_uri :: "string \<rightharpoonup> string" where
  "with_uri = [''MONGO_URI'' \<mapsto> ''mongodb://localhost/expenses'']"

definition serving :: process where
  "serving = (fresh with_uri 0)\<lparr>readyState := 1, listening := Some (Tcp 5001), inflight := [3000]\<rparr>"


section \<open>Properties\<close>

subsection \<open>The event loop\<close>

lemma run_done: "exitCode p \<noteq> None \<or> pending p = [] \<Longrightarrow> run w p = p"
  by (subst run.simps) simp

lemma run_single:
  "pending p = [(t, k)] \<Longrightarrow> exitCode p = None \<Longrightarrow>
   run w p = run w (exec w k (p\<lparr>pending := [], clock := max (clock p) t\<rparr>))"
  by (subst run.simps) (simp add: step_def)

lemma run_stops: "exitCode (run w p) \<noteq> None \<or> pending (run w p) = []"
proof (induction w p rule: run.induct)
  case (1 w p)
  show ?case
  proof (cases "exitCode p \<noteq> None \<or> pending p = []")
    case True
    then show ?thesis by (simp add: run_done)
  next
    case False
    then have "run w p = run w (step w p)" by (subst run.simps) simp
    with 1 [OF False] show ?thesis by simp
  qed
qed

lemma step_fields:
  "env (step w p) = env p \<and> listening (step w p) = listening p \<and> PORT (step w p) = PORT p"
  by (auto simp: step_def exec_def connectToMongoDB_def settle_def catchBlock_def say_def
        process_exit_def afterServerClose_def afterMongoClose_def closeDatabase_def
        callMongoClose_def mongoCloseSettled_def shutdownFailed_def shutdownDone_def Let_def
        split: list.splits task.splits prod.splits option.splits)

lemma run_fields:
  "env (run w p) = env p \<and> listening (run w p) = listening p \<and> PORT (run w p) = PORT p"
proof (induction w p rule: run.induct)
  case (1 w p)
  show ?case
  proof (cases "exitCode p \<noteq> None \<or> pending p = []")
    case True
    then show ?thesis by (simp add: run_done)
  next
    case False
    then have "run w p = run w (step w p)" by (subst run.simps) simp
    with 1 [OF False] show ?thesis by (simp add: step_fields)
  qed
qed

lemma NODE_ENV_say [simp]: "NODE_ENV (say l p) = NODE_ENV p"
  by (simp add: NODE_ENV_def say_def)

lemma catches_append: "catches (xs @ ys) = catches xs + catches ys"
  by (induction xs rule: catches.induct) simp_all

lemma length_starts: "length (starts w k t c) = c"
  by (induction c arbitrary: k t) simp_all

lemma starts_gap:
  "Suc i < c \<Longrightarrow> starts w k t c ! Suc i = starts w k t c ! i + fst (connectOutcome w (k + i)) + 5000"
proof (induction c arbitrary: k t i)
  case 0
  then show ?case by simp
next
  case (Suc c)
  show ?case
  proof (cases i)
    case 0
    with Suc.prems show ?thesis by (cases c) simp_all
  next
    case (Suc j)
    with Suc.prems Suc.IH [of j "Suc k"] show ?thesis by simp
  qed
qed

subsection \<open>The \<^verbatim>\<open>catch\<close> block under the loop\<close>

lemma catch_last:
  assumes "n \<le> 0" "pending p = []"
  shows "run w (catchBlock n msg p) =
         (let p2 = say MongoFailedAfterRetries (say (MongoConnectionError n msg) p)
          in if NODE_ENV p \<noteq> Some ''production'' then process_exit 1 p2 else p2)"
  using assms by (simp add: run_done catchBlock_def say_def process_exit_def Let_def NODE_ENV_def)

lemma catch_retry:
  assumes "0 < n" "pending p = []" "exitCode p = None"
  shows "run w (catchBlock n msg p) =
         run w (connectToMongoDB w (n - 1)
           ((say RetryingIn5Seconds (say (MongoConnectionError n msg) p))\<lparr>clock := clock p + 5000\<rparr>))"
proof -
  let ?q = "catchBlock n msg p"
  have "pending ?q = [(clock p + 5000, Retry (n - 1))]" "exitCode ?q = None"
    using assms by (simp_all add: catchBlock_def say_def Let_def)
  then have "run w ?q = run w (exec w (Retry (n - 1)) (?q\<lparr>pending := [], clock := max (clock ?q) (clock p + 5000)\<rparr>))"
    by (rule run_single)
  also have "?q\<lparr>pending := [], clock := max (clock ?q) (clock p + 5000)\<rparr>
      = (say RetryingIn5Seconds (say (MongoConnectionError n msg) p))\<lparr>clock := clock p + 5000\<rparr>"
    using assms by (simp add: catchBlock_def say_def Let_def)
  finally show ?thesis by (simp add: exec_def)
qed

lemma connect_settles:
  assumes "\<not> falsy (env p ''MONGO_URI'')" "connectOutcome w (length (attempts p)) = (d, r)"
    "pending p = []" "exitCode p = None"
  shows "run w (connectToMongoDB w n p) =
         run w (settle n r (p\<lparr>attempts := attempts p @ [clock p], readyState := 2, clock := clock p + d\<rparr>))"
proof -
  let ?q = "connectToMongoDB w n p"
  have "pending ?q = [(clock p + d, Settle n r)]" "exitCode ?q = None"
    using assms by (simp_all add: connectToMongoDB_def)
  then have "run w ?q = run w (exec w (Settle n r) (?q\<lparr>pending := [], clock := max (clock ?q) (clock p + d)\<rparr>))"
    by (rule run_single)
  also have "?q\<lparr>pending := [], clock := max (clock ?q) (clock p + d)\<rparr>
      = p\<lparr>attempts := attempts p @ [clock p], readyState := 2, clock := clock p + d\<rparr>"
    using assms by (simp add: connectToMongoDB_def)
  finally show ?thesis by (simp add: exec_def)
qed

subsection \<open>Runs in which every attempt fails\<close>

lemma rejected_run:
  assumes "\<not> falsy (env p ''MONGO_URI'')" and "\<forall>k. snd (connectOutcome w k) \<noteq> None"
    and "pending p = []" and "exitCode p = None"
  shows "attempts (run w (connectToMongoDB w n p))
           = attempts p @ starts w (length (attempts p)) (clock p) (Suc (nat n))
         \<and> exitCode (run w (connectToMongoDB w n p))
           = (if NODE_ENV p = Some ''production'' then None else Some 1)"
  using assms
proof (induction "nat n" arbitrary: n p)
  case 0
  obtain d msg where out: "connectOutcome w (length (attempts p)) = (d, Some msg)"
    using 0(3) [rule_format, of "length (attempts p)"]
    by (cases "connectOutcome w (length (attempts p))") auto
  have "run w (connectToMongoDB w n p)
      = run w (catchBlock n msg (p\<lparr>attempts := attempts p @ [clock p], clock := clock p + d, readyState := 0\<rparr>))"
    using connect_settles [OF 0(2) out 0(4) 0(5)] by (simp add: settle_def)
  also have "\<dots> = (let p2 = say MongoFailedAfterRetries (say (MongoConnectionError n msg)
        (p\<lparr>attempts := attempts p @ [clock p], clock := clock p + d, readyState := 0\<rparr>))
      in if NODE_ENV p \<noteq> Some ''production'' then process_exit 1 p2 else p2)"
    using 0(1) 0(4) by (subst catch_last) (simp_all add: NODE_ENV_def)
  finally show ?case
    using 0(1) 0(5) by (simp add: Let_def say_def process_exit_def)
next
  case (Suc m)
  obtain d msg where out: "connectOutcome w (length (attempts p)) = (d, Some msg)"
    using Suc(4) [rule_format, of "length (attempts p)"]
    by (cases "connectOutcome w (length (attempts p))") auto
  define p3 where "p3 = (say RetryingIn5Seconds (say (MongoConnectionError n msg)
      (p\<lparr>attempts := attempts p @ [clock p], clock := clock p + d, readyState := 0\<rparr>)))
        \<lparr>clock := clock p + d + 5000\<rparr>"
  have pos: "0 < n" and m: "m = nat (n - 1)"
    using Suc(2) by auto
  have "run w (connectToMongoDB w n p)
      = run w (catchBlock n msg (p\<lparr>attempts := attempts p @ [clock p], clock := clock p + d, readyState := 0\<rparr>))"
    using connect_settles [OF Suc(3) out Suc(5) Suc(6)] by (simp add: settle_def)
  also have "\<dots> = run w (connectToMongoDB w (n - 1) p3)"
    using pos Suc(5) Suc(6) by (subst catch_retry) (simp_all add: p3_def)
  finally have unfold: "run w (connectToMongoDB w n p) = run w (connectToMongoDB w (n - 1) p3)" .
  have p3: "env p3 = env p" "pending p3 = []" "exitCode p3 = None"
    "attempts p3 = attempts p @ [clock p]" "clock p3 = clock p + d + 5000" "NODE_ENV p3 = NODE_ENV p"
    using Suc(5) Suc(6) by (simp_all add: p3_def say_def NODE_ENV_def)
  have "attempts (run w (connectToMongoDB w (n - 1) p3))
           = attempts p3 @ starts w (length (attempts p3)) (clock p3) (Suc (nat (n - 1)))
         \<and> exitCode (run w (connectToMongoDB w (n - 1) p3))
           = (if NODE_ENV p3 = Some ''production'' then None else Some 1)"
    using Suc(3) Suc(4) by (intro Suc(1) [OF m]) (simp_all add: p3)
  then show ?case
    using pos out by (simp add: unfold p3 m [symmetric] Suc(2) [symmetric])
qed

lemma unset_run:
  assumes "falsy (env p ''MONGO_URI'')" and "pending p = []" and "exitCode p = None"
  shows "attempts (run w (connectToMongoDB w n p)) = attempts p
         \<and> clock (run w (connectToMongoDB w n p)) = clock p + 5000 * nat n
         \<and> catches (effects (run w (connectToMongoDB w n p))) = catches (effects p) + Suc (nat n)
         \<and> exitCode (run w (connectToMongoDB w n p))
           = (if NODE_ENV p = Some ''production'' then None else Some 1)"
  using assms
proof (induction "nat n" arbitrary: n p)
  case 0
  then show ?case
    by (simp add: connectToMongoDB_def catch_last Let_def say_def process_exit_def catches_append)
next
  case (Suc m)
  let ?msg = "''MONGO_URI environment variable is not set''"
  define p3 where "p3 = (say RetryingIn5Seconds (say (MongoConnectionError n ?msg) p))
        \<lparr>clock := clock p + 5000\<rparr>"
  have pos: "0 < n" and m: "m = nat (n - 1)"
    using Suc(2) by auto
  have unfold: "run w (connectToMongoDB w n p) = run w (connectToMongoDB w (n - 1) p3)"
    using pos Suc(3) Suc(4) Suc(5) by (simp add: connectToMongoDB_def catch_retry p3_def)
  have p3: "env p3 = env p" "pending p3 = []" "exitCode p3 = None"
    "attempts p3 = attempts p" "clock p3 = clock p + 5000" "NODE_ENV p3 = NODE_ENV p"
    "catches (effects p3) = Suc (catches (effects p))"
    using Suc(4) Suc(5) by (simp_all add: p3_def say_def NODE_ENV_def catches_append)
  have "attempts (run w (connectToMongoDB w (n - 1) p3)) = attempts p3
         \<and> clock (run w (connectToMongoDB w (n - 1) p3)) = clock p3 + 5000 * nat (n - 1)
         \<and> catches (effects (run w (connectToMongoDB w (n - 1) p3))) = catches (effects p3) + Suc (nat (n - 1))
         \<and> exitCode (run w (connectToMongoDB w (n - 1) p3))
           = (if NODE_ENV p3 = Some ''production'' then None else Some 1)"
    using Suc(3) by (intro Suc(1) [OF m]) (simp_all add: p3)
  then show ?case
    using pos by (simp add: unfold p3 m [symmetric] Suc(2) [symmetric])
qed

subsection \<open>The health check\<close>

lemma app_health:
  assumes "httpMethod req = ''GET''" "path req = ''/health''"
  shows "snd (app w p req) = healthHandler p"
  using assms by (simp add: app_def layers_def route_def)

text \<open>
  C3. A request \<^verbatim>\<open>GET /health\<close> to a process that lives and listens is answered with status
  200 and a body that is sent with the four fields status, timestamp, uptime and
  environment, none of them undefined: the status is "healthy", the timestamp is the
  time of the request, the uptime is the time since the start in seconds, and the
  environment is \<^verbatim>\<open>NODE_ENV\<close> or "development". The state of the database connection does not
  enter the answer.
\<close>

theorem health_200:
  assumes "httpMethod req = ''GET''" and "path req = ''/health''"
    and "exitCode p = None" and "listening p \<noteq> None"
  shows "serve w (p\<lparr>readyState := rs\<rparr>) req = Some (healthHandler p)
         \<and> statusCode (healthHandler p) = 200
         \<and> keys (payload (healthHandler p)) = [''status'', ''timestamp'', ''uptime'', ''environment'']
         \<and> sent (payload (healthHandler p)) = [''status'', ''timestamp'', ''uptime'', ''environment'']
         \<and> field (payload (healthHandler p)) ''status'' = Some (JStr ''healthy'')
         \<and> field (payload (healthHandler p)) ''timestamp'' = Some (JIsoTime (clock p))
         \<and> field (payload (healthHandler p)) ''uptime'' = Some (JNum (of_nat (clock p - bootTime p) / 1000))
         \<and> field (payload (healthHandler p)) ''environment''
              = Some (JStr (case env p ''NODE_ENV'' of
                              None \<Rightarrow> ''development''
                            | Some s \<Rightarrow> if s = [] then ''development'' else s))"
  using assms
  by (simp add: serve_def app_health healthHandler_def keys_def sent_def field_def NODE_ENV_def
        uptime_def or_else_def)

theorem health_200_witness:
  "httpMethod (get ''/health'' Map.empty) = ''GET'' \<and> path (get ''/health'' Map.empty) = ''/health''
   \<and> exitCode serving = None \<and> listening serving \<noteq> None
   \<and> serve sample_world (serving\<lparr>readyState := 2\<rparr>) (get ''/health'' Map.empty)
       = Some \<lparr>statusCode = 200,
               payload = Json
                 [(''status'', JStr ''healthy''), (''timestamp'', JIsoTime 0),
                  (''uptime'', JNum 0), (''environment'', JStr ''development'')]\<rparr>
   \<and> sent (payload (healthHandler serving)) = [''status'', ''timestamp'', ''uptime'', ''environment'']"
  using health_200 [of "get ''/health'' Map.empty" serving sample_world 2]
  by (simp add: get_def serving_def fresh_def with_uri_def healthHandler_def NODE_ENV_def
        uptime_def or_else_def)

subsection \<open>The retry schedule\<close>

text \<open>
  C4. With a database URI and a budget \<open>N \<ge> 0\<close>, when every call of \<^verbatim>\<open>mongoose.connect\<close> is
  rejected, exactly \<open>N + 1\<close> calls are made; the first starts when \<^verbatim>\<open>connectToMongoDB\<close> is
  called and each next one 5000 ms after the rejection of the one before. The \<^verbatim>\<open>catch\<close>
  block that schedules a retry returns without the clock having moved, with the retry
  waiting in the queue for its time, and requests are served as before.
\<close>

theorem retry_schedule:
  assumes "0 \<le> N" and "\<not> falsy (env p ''MONGO_URI'')" and "\<forall>k. snd (connectOutcome w k) \<noteq> None"
    and "pending p = []" and "exitCode p = None" and "attempts p = []"
  shows "int (length (attempts (run w (connectToMongoDB w N p)))) = N + 1
         \<and> attempts (run w (connectToMongoDB w N p)) ! 0 = clock p
         \<and> (\<forall>i. int (Suc i) \<le> N \<longrightarrow>
               attempts (run w (connectToMongoDB w N p)) ! Suc i
                 = attempts (run w (connectToMongoDB w N p)) ! i + fst (connectOutcome w i) + 5000)
         \<and> (0 < n \<longrightarrow>
               clock (catchBlock n msg q) = clock q
               \<and> pending (catchBlock n msg q) = pending q @ [(clock q + 5000, Retry (n - 1))]
               \<and> exitCode (catchBlock n msg q) = exitCode q
               \<and> serve w (catchBlock n msg q) req = serve w q req)"
proof -
  let ?as = "attempts (run w (connectToMongoDB w N p))"
  have a: "?as = starts w 0 (clock p) (Suc (nat N))"
    using rejected_run [OF assms(2-5), of N] assms(6) by simp
  have len: "int (length ?as) = N + 1"
    using assms(1) by (simp add: a length_starts del: starts.simps)
  have first: "?as ! 0 = clock p"
    by (simp add: a)
  have gap: "?as ! Suc i = ?as ! i + fst (connectOutcome w i) + 5000" if "int (Suc i) \<le> N" for i
  proof -
    from that have "Suc i < Suc (nat N)" by linarith
    from starts_gap [OF this, of w 0 "clock p"] show ?thesis
      by (simp only: a add_0)
  qed
  have deferred: "clock (catchBlock n msg q) = clock q
      \<and> pending (catchBlock n msg q) = pending q @ [(clock q + 5000, Retry (n - 1))]
      \<and> exitCode (catchBlock n msg q) = exitCode q
      \<and> serve w (catchBlock n msg q) req = serve w q req" if "0 < n"
    using that
    by (simp add: serve_def app_def layers_def catchBlock_def say_def Let_def NODE_ENV_def
          healthHandler_def rootHandler_def errorHandler_def uptime_def)
  from len first gap deferred show ?thesis by blast
qed

theorem retry_schedule_witness:
  "(0::int) \<le> 2 \<and> \<not> falsy (env (fresh with_uri 0) ''MONGO_URI'')
   \<and> (\<forall>k. snd (connectOutcome sample_world k) \<noteq> None)
   \<and> pending (fresh with_uri 0) = [] \<and> exitCode (fresh with_uri 0) = None
   \<and> attempts (fresh with_uri 0) = []
   \<and> length (attempts (run sample_world (connectToMongoDB sample_world 2 (fresh with_uri 0)))) = 3
   \<and> attempts (run sample_world (connectToMongoDB sample_world 2 (fresh with_uri 0))) ! 1
       = attempts (run sample_world (connectToMongoDB sample_world 2 (fresh with_uri 0))) ! 0 + 5100
   \<and> pending (catchBlock 2 ''ECONNREFUSED'' (fresh with_uri 0)) = [(5000, Retry 1)]"
  using retry_schedule [where N = 2 and p = "fresh with_uri 0" and w = sample_world
      and n = 2 and msg = "''ECONNREFUSED''" and q = "fresh with_uri 0"]
  by (simp add: fresh_def with_uri_def sample_world_def falsy_def)

subsection \<open>A missing URI, and the end of the budget\<close>

text \<open>
  C5 as stated fails: without a database URI, \<^verbatim>\<open>connectToMongoDB(5)\<close> does not stop at once. Its
  \<^verbatim>\<open>catch\<close> block queues a retry for 5000 ms later and the process keeps running.
\<close>

theorem missing_uri_is_retried:
  "pending (connectToMongoDB sample_world 5 (fresh Map.empty 0)) = [(5000, Retry 4)]
   \<and> exitCode (connectToMongoDB sample_world 5 (fresh Map.empty 0)) = None
   \<and> catches (effects (run sample_world (connectToMongoDB sample_world 5 (fresh Map.empty 0)))) = 6"
proof -
  have "falsy (env (fresh Map.empty 0) ''MONGO_URI'')" "pending (fresh Map.empty 0) = []"
    "exitCode (fresh Map.empty 0) = None"
    by (simp_all add: fresh_def falsy_def)
  from unset_run [OF this, of sample_world 5] show ?thesis
    by (simp add: connectToMongoDB_def catchBlock_def say_def fresh_def falsy_def Let_def)
qed

text \<open>
  C5, amended. Without a database URI \<^verbatim>\<open>mongoose.connect\<close> is never called, and the failure
  goes through the same \<^verbatim>\<open>catch\<close> block as a refused connection: with a budget \<open>N > 0\<close> a retry
  is queued for 5000 ms later; the \<^verbatim>\<open>catch\<close> block runs \<open>N + 1\<close> times in all, the last time
  \<open>5000 * N\<close> ms after the call, and only then the process exits with code 1 outside
  production or stays alive in production.
\<close>

theorem missing_uri_schedule:
  assumes "0 \<le> N" and "falsy (env p ''MONGO_URI'')" and "pending p = []" and "exitCode p = None"
  shows "attempts (run w (connectToMongoDB w N p)) = attempts p
         \<and> (0 < N \<longrightarrow> pending (connectToMongoDB w N p) = [(clock p + 5000, Retry (N - 1))]
                      \<and> exitCode (connectToMongoDB w N p) = None)
         \<and> int (catches (effects (run w (connectToMongoDB w N p)))) = int (catches (effects p)) + N + 1
         \<and> int (clock (run w (connectToMongoDB w N p))) = int (clock p) + 5000 * N
         \<and> exitCode (run w (connectToMongoDB w N p))
             = (if NODE_ENV p = Some ''production'' then None else Some 1)"
proof -
  have "0 < N \<longrightarrow> pending (connectToMongoDB w N p) = [(clock p + 5000, Retry (N - 1))]
                      \<and> exitCode (connectToMongoDB w N p) = None"
    using assms(2-4) by (simp add: connectToMongoDB_def catchBlock_def say_def Let_def)
  with unset_run [OF assms(2-4), of w N] assms(1) show ?thesis
    by simp
qed

theorem missing_uri_schedule_witness:
  "(0::int) \<le> 5 \<and> falsy (env (fresh Map.empty 0) ''MONGO_URI'')
   \<and> pending (fresh Map.empty 0) = [] \<and> exitCode (fresh Map.empty 0) = None
   \<and> attempts (run sample_world (connectToMongoDB sample_world 5 (fresh Map.empty 0))) = []
   \<and> clock (run sample_world (connectToMongoDB sample_world 5 (fresh Map.empty 0))) = 25000
   \<and> exitCode (run sample_world (connectToMongoDB sample_world 5 (fresh Map.empty 0))) = Some 1"
  using missing_uri_schedule [of 5 "fresh Map.empty 0" sample_world]
  by (simp add: fresh_def falsy_def NODE_ENV_def)

text \<open>
  C6. When every pass of \<^verbatim>\<open>connectToMongoDB\<close> fails, the run ends with the budget used up.
  Outside production (so in development) the process has then exited with code 1 and
  answers nothing. In production it has not exited, and if its server listens every
  request is still answered, \<^verbatim>\<open>GET /health\<close> with status 200.
\<close>

theorem exhausted_budget:
  assumes "falsy (env p ''MONGO_URI'') \<or> (\<forall>k. snd (connectOutcome w k) \<noteq> None)"
    and "pending p = []" and "exitCode p = None"
  shows "(NODE_ENV p \<noteq> Some ''production'' \<longrightarrow>
            exitCode (run w (connectToMongoDB w N p)) = Some 1
            \<and> serve w (run w (connectToMongoDB w N p)) req = None)
         \<and> (NODE_ENV p = Some ''production'' \<longrightarrow>
            exitCode (run w (connectToMongoDB w N p)) = None
            \<and> pending (run w (connectToMongoDB w N p)) = []
            \<and> (listening p \<noteq> None \<longrightarrow>
                 serve w (run w (connectToMongoDB w N p)) req
                   = Some (snd (app w (run w (connectToMongoDB w N p)) req))
                 \<and> (httpMethod req = ''GET'' \<and> path req = ''/health'' \<longrightarrow>
                      statusCode (snd (app w (run w (connectToMongoDB w N p)) req)) = 200)))"
proof -
  let ?q = "run w (connectToMongoDB w N p)"
  have ex: "exitCode ?q = (if NODE_ENV p = Some ''production'' then None else Some 1)"
    using assms unset_run [of p w N] rejected_run [of p w N] by blast
  have li: "listening ?q = listening (connectToMongoDB w N p)"
    by (simp add: run_fields)
  have "listening (connectToMongoDB w N p) = listening p"
    by (simp add: connectToMongoDB_def catchBlock_def say_def process_exit_def Let_def
          split: prod.splits)
  with li have li': "listening ?q = listening p" by simp
  have pe: "exitCode ?q = None \<longrightarrow> pending ?q = []"
    using run_stops [of w "connectToMongoDB w N p"] by blast
  have h: "httpMethod req = ''GET'' \<and> path req = ''/health'' \<longrightarrow> statusCode (snd (app w ?q req)) = 200"
    by (simp add: app_health healthHandler_def)
  show ?thesis
    using ex li' pe h by (simp add: serve_def)
qed

theorem exhausted_budget_witness:
  "(\<forall>k. snd (connectOutcome sample_world k) \<noteq> None)
   \<and> pending (listen sample_world (fresh (with_uri(''NODE_ENV'' \<mapsto> ''production'')) 0)) = []
   \<and> exitCode (listen sample_world (fresh (with_uri(''NODE_ENV'' \<mapsto> ''production'')) 0)) = None
   \<and> exitCode (run sample_world (connectToMongoDB sample_world 5
        (listen sample_world (fresh (with_uri(''NODE_ENV'' \<mapsto> ''production'')) 0)))) = None
   \<and> statusCode (snd (app sample_world (run sample_world (connectToMongoDB sample_world 5
        (listen sample_world (fresh (with_uri(''NODE_ENV'' \<mapsto> ''production'')) 0)))) (get ''/health'' Map.empty))) = 200
   \<and> pending (fresh with_uri 0) = [] \<and> exitCode (fresh with_uri 0) = None
   \<and> exitCode (run sample_world (connectToMongoDB sample_world 5 (fresh with_uri 0))) = Some 1"
proof -
  let ?p = "listen sample_world (fresh (with_uri(''NODE_ENV'' \<mapsto> ''production'')) 0)"
  have w: "\<forall>k. snd (connectOutcome sample_world k) \<noteq> None"
    by (simp add: sample_world_def)
  have p: "pending ?p = []" "exitCode ?p = None" "listening ?p \<noteq> None"
    "NODE_ENV ?p = Some ''production''"
    by (simp_all add: listen_def listenOutcome_def port_number_def bindPort_def read_PORT_def
          fresh_def with_uri_def sample_world_def say_def NODE_ENV_def Let_def)
  have q: "pending (fresh with_uri 0) = []" "exitCode (fresh with_uri 0) = None"
    "NODE_ENV (fresh with_uri 0) \<noteq> Some ''production''"
    by (simp_all add: fresh_def with_uri_def NODE_ENV_def)
  show ?thesis
    using exhausted_budget [where p = ?p and w = sample_world
        and req = "get ''/health'' Map.empty" and N = 5]
      exhausted_budget [where p = "fresh with_uri 0" and w = sample_world
        and req = "get ''/health'' Map.empty" and N = 5]
    by (simp add: w p q get_def)
qed

subsection \<open>Shutdown\<close>












text \<open>
  C8. The guarded close of the database connection is idempotent: on a connection that
  is already disconnected it does nothing, and after a close that succeeded a second one
  changes nothing and fails with nothing, so \<^verbatim>\<open>mongoose.connection.close\<close> is called at most
  once over the two.
\<close>

theorem close_idempotent:
  assumes "closeMongo w p = Inr p1"
  shows "closeMongo w p1 = Inr p1
         \<and> (readyState p = 0 \<longrightarrow> p1 = p)
         \<and> readyState p1 = 0
         \<and> length (filter (\<lambda>e. e = MongooseClose False) (effects p1))
             \<le> Suc (length (filter (\<lambda>e. e = MongooseClose False) (effects p)))"
  using assms
  by (auto simp: closeMongo_def mongoCloseSettled_def callMongoClose_def say_def
        split: if_splits option.splits)

theorem close_idempotent_witness:
  "closeMongo sample_world ((fresh with_uri 0)\<lparr>readyState := 1\<rparr>)
     = Inr ((fresh with_uri 0)\<lparr>effects := [MongooseClose False, Console MongoConnectionClosed]\<rparr>)
   \<and> closeMongo sample_world
        ((fresh with_uri 0)\<lparr>effects := [MongooseClose False, Console MongoConnectionClosed]\<rparr>)
     = Inr ((fresh with_uri 0)\<lparr>effects := [MongooseClose False, Console MongoConnectionClosed]\<rparr>)
   \<and> readyState (fresh with_uri 0) = 0
   \<and> closeMongo sample_world (fresh with_uri 0) = Inr (fresh with_uri 0)"
proof -
  have closed: "closeMongo sample_world (fresh with_uri 0) = Inr (fresh with_uri 0)"
    by (simp add: closeMongo_def fresh_def)
  have first: "closeMongo sample_world ((fresh with_uri 0)\<lparr>readyState := 1\<rparr>)
     = Inr ((fresh with_uri 0)\<lparr>effects := [MongooseClose False, Console MongoConnectionClosed]\<rparr>)"
    by (simp add: closeMongo_def mongoCloseSettled_def callMongoClose_def say_def fresh_def
          sample_world_def)
  from first closed close_idempotent [OF first] close_idempotent [OF closed] show ?thesis
    by (simp add: fresh_def)
qed

subsection \<open>Error responses\<close>

text \<open>
  C9 as stated fails on the error handler of the shorter variants of \<^verbatim>\<open>index.js\<close>: it does not
  read the environment, so in production too its body carries the message of the error,
  and two errors with the same status get different bodies.
\<close>

theorem variant_handler_shows_message:
  "NODE_ENV (fresh [''NODE_ENV'' \<mapsto> ''production''] 0) = Some ''production''
   \<and> field (payload (errorHandler_variant (fresh [''NODE_ENV'' \<mapsto> ''production''] 0)
       \<lparr>message = Some ''connect ECONNREFUSED 10.0.0.7:27017'', status = None, stack = None\<rparr>)) ''error''
     = Some (JStr ''connect ECONNREFUSED 10.0.0.7:27017'')
   \<and> statusCode (errorHandler_variant (fresh [''NODE_ENV'' \<mapsto> ''production''] 0)
       \<lparr>message = Some ''connect ECONNREFUSED 10.0.0.7:27017'', status = None, stack = None\<rparr>)
     = statusCode (errorHandler_variant (fresh [''NODE_ENV'' \<mapsto> ''production''] 0)
       \<lparr>message = Some ''E11000 duplicate key'', status = None, stack = None\<rparr>)
   \<and> errorHandler_variant (fresh [''NODE_ENV'' \<mapsto> ''production''] 0)
       \<lparr>message = Some ''connect ECONNREFUSED 10.0.0.7:27017'', status = None, stack = None\<rparr>
     \<noteq> errorHandler_variant (fresh [''NODE_ENV'' \<mapsto> ''production''] 0)
       \<lparr>message = Some ''E11000 duplicate key'', status = None, stack = None\<rparr>"
  by (simp add: errorHandler_variant_def field_def or_else_def status_or_500_def fresh_def NODE_ENV_def)

text \<open>
  C9, amended. In the error handler of \<^verbatim>\<open>index.js\<close> that reads the environment (lines
  151-163), in production the error field is the fixed string "Internal Server Error",
  there is no stack field, and two errors with the same status get the same response;
  outside production the error field is the message of the error and the stack field is
  its stack. The handler of the shorter variants never has a stack field; its error
  field is the message of the error, and the fixed string only when the message is
  missing or empty.
\<close>

theorem error_body:
  "(NODE_ENV p = Some ''production'' \<longrightarrow>
      field (payload (errorHandler p e)) ''error'' = Some (JStr ''Internal Server Error'')
      \<and> ''stack'' \<notin> set (keys (payload (errorHandler p e)))
      \<and> statusCode (errorHandler p e) = status_or_500 e
      \<and> (status_or_500 e = status_or_500 e' \<longrightarrow> errorHandler p e = errorHandler p e'))
   \<and> (NODE_ENV p \<noteq> Some ''production'' \<longrightarrow>
      field (payload (errorHandler p e)) ''error'' = Some (js_of (message e))
      \<and> field (payload (errorHandler p e)) ''stack'' = Some (js_of (stack e)))
   \<and> ''stack'' \<notin> set (keys (payload (errorHandler_variant p e)))
   \<and> field (payload (errorHandler_variant p e)) ''error''
        = Some (JStr (or_else (message e) ''Internal Server Error''))"
  by (simp add: errorHandler_def errorHandler_variant_def field_def keys_def Let_def)

theorem error_body_witness:
  "NODE_ENV (fresh [''NODE_ENV'' \<mapsto> ''production''] 0) = Some ''production''
   \<and> errorHandler (fresh [''NODE_ENV'' \<mapsto> ''production''] 0)
        \<lparr>message = Some ''connect ECONNREFUSED 10.0.0.7:27017'', status = None, stack = Some ''at db.js:12''\<rparr>
     = \<lparr>statusCode = 500,
        payload = Json [(''success'', JBool False), (''error'', JStr ''Internal Server Error'')]\<rparr>
   \<and> status_or_500 \<lparr>message = Some ''connect ECONNREFUSED 10.0.0.7:27017'', status = None, stack = Some ''at db.js:12''\<rparr>
     = status_or_500 \<lparr>message = Some ''E11000 duplicate key'', status = Some 500, stack = None\<rparr>
   \<and> errorHandler (fresh [''NODE_ENV'' \<mapsto> ''production''] 0)
        \<lparr>message = Some ''connect ECONNREFUSED 10.0.0.7:27017'', status = None, stack = Some ''at db.js:12''\<rparr>
     = errorHandler (fresh [''NODE_ENV'' \<mapsto> ''production''] 0)
        \<lparr>message = Some ''E11000 duplicate key'', status = Some 500, stack = None\<rparr>
   \<and> NODE_ENV (fresh Map.empty 0) \<noteq> Some ''production''
   \<and> field (payload (errorHandler (fresh Map.empty 0)
        \<lparr>message = Some ''E11000 duplicate key'', status = Some 500, stack = None\<rparr>)) ''error''
     = Some (JStr ''E11000 duplicate key'')"
  using error_body [where p = "fresh [''NODE_ENV'' \<mapsto> ''production''] 0"
      and e = "\<lparr>message = Some ''connect ECONNREFUSED 10.0.0.7:27017'', status = None, stack = Some ''at db.js:12''\<rparr>"
      and e' = "\<lparr>message = Some ''E11000 duplicate key'', status = Some 500, stack = None\<rparr>"]
    error_body [where p = "fresh Map.empty 0"
      and e = "\<lparr>message = Some ''E11000 duplicate key'', status = Some 500, stack = None\<rparr>"]
  by (simp add: fresh_def NODE_ENV_def status_or_500_def errorHandler_def js_of_def)

subsection \<open>The port\<close>










subsection \<open>The protected route\<close>

lemma app_protected:
  assumes "httpMethod req = ''GET''" "path req = ''/api/protected''"
  shows "app w p req =
     (case auth w req of
        Next req' \<Rightarrow>
          ((if NODE_ENV p \<noteq> Some ''production'' then [''logger''] else []) @ [''auth'', ''protected''],
           \<lparr>statusCode = 200,
            payload = Json
              [(''message'', JStr ''This is protected data accessible only with valid token''),
               (''userId'', js_of (user req'))]\<rparr>)
      | Respond r \<Rightarrow> ((if NODE_ENV p \<noteq> Some ''production'' then [''logger''] else []) @ [''auth''], r)
      | NextErr e \<Rightarrow> ((if NODE_ENV p \<noteq> Some ''production'' then [''logger''] else []) @ [''auth'', ''errorHandler''],
           errorHandler p e))"
  using assms
  by (simp add: app_def layers_def route_def under_def auth_def protectedHandler_def
        split: sum.splits)

text \<open>
  C1. A request \<^verbatim>\<open>GET /api/protected\<close> without a credential is answered 401 with the error
  body of kind Missing; one whose credential the verification does not accept is
  answered 401 with the kind Invalid; in both cases the route callback is not run, and
  whenever it is run the credential was verified.
\<close>

theorem protected_rejects:
  assumes "httpMethod req = ''GET''" and "path req = ''/api/protected''"
  shows "(credential req = None \<longrightarrow>
            snd (app w p req) = \<lparr>statusCode = 401, payload = AuthFailure Missing\<rparr>
            \<and> ''protected'' \<notin> set (fst (app w p req)))
         \<and> (credential req = Some tok \<and> verifyToken w tok = None \<longrightarrow>
            snd (app w p req) = \<lparr>statusCode = 401, payload = AuthFailure Invalid\<rparr>
            \<and> ''protected'' \<notin> set (fst (app w p req)))
         \<and> (''protected'' \<in> set (fst (app w p req)) \<longrightarrow>
            (\<exists>uid. verify w (credential req) = Inr uid))"
  using assms
  by (auto simp: app_protected auth_def verify_def split: option.splits sum.splits)

theorem protected_rejects_witness:
  "httpMethod (get ''/api/protected'' Map.empty) = ''GET''
   \<and> path (get ''/api/protected'' Map.empty) = ''/api/protected''
   \<and> credential (get ''/api/protected'' Map.empty) = None
   \<and> app sample_world (fresh Map.empty 0) (get ''/api/protected'' Map.empty)
       = ([''logger'', ''auth''], \<lparr>statusCode = 401, payload = AuthFailure Missing\<rparr>)
   \<and> credential (get ''/api/protected'' [''authorization'' \<mapsto> ''Bearer forged'']) = Some ''Bearer forged''
   \<and> verifyToken sample_world ''Bearer forged'' = None
   \<and> snd (app sample_world (fresh Map.empty 0) (get ''/api/protected'' [''authorization'' \<mapsto> ''Bearer forged'']))
       = \<lparr>statusCode = 401, payload = AuthFailure Invalid\<rparr>
   \<and> ''protected'' \<in> set (fst (app sample_world (fresh Map.empty 0)
         (get ''/api/protected'' [''authorization'' \<mapsto> ''Bearer good''])))
   \<and> verify sample_world (credential (get ''/api/protected'' [''authorization'' \<mapsto> ''Bearer good'']))
       = Inr ''user-42''"
  using protected_rejects [where req = "get ''/api/protected'' Map.empty" and w = sample_world
      and p = "fresh Map.empty 0"]
    protected_rejects [where req = "get ''/api/protected'' [''authorization'' \<mapsto> ''Bearer good'']"
      and w = sample_world and p = "fresh Map.empty 0"]
    protected_rejects [where req = "get ''/api/protected'' [''authorization'' \<mapsto> ''Bearer forged'']"
      and w = sample_world and p = "fresh Map.empty 0" and tok = "''Bearer forged''"]
  by (simp add: get_def credential_def sample_world_def app_protected auth_def verify_def
        fresh_def NODE_ENV_def)

text \<open>
  C2. A request \<^verbatim>\<open>GET /api/protected\<close> whose credential the verification accepts is answered
  200 with the body \<open>{message, userId}\<close>, where \<open>userId\<close> is the identity encoded in the
  credential; the route callback ran after the authentication.
\<close>

theorem protected_accepts:
  assumes "httpMethod req = ''GET''" and "path req = ''/api/protected''"
    and "credential req = Some tok" and "verifyToken w tok = Some uid"
  shows "snd (app w p req) =
           \<lparr>statusCode = 200,
            payload = Json
              [(''message'', JStr ''This is protected data accessible only with valid token''),
               (''userId'', JStr uid)]\<rparr>
         \<and> keys (payload (snd (app w p req))) = [''message'', ''userId'']
         \<and> ''protected'' \<in> set (fst (app w p req))"
  using assms
  by (simp add: app_protected auth_def verify_def js_of_def keys_def)

theorem protected_accepts_witness:
  "httpMethod (get ''/api/protected'' [''authorization'' \<mapsto> ''Bearer good'']) = ''GET''
   \<and> path (get ''/api/protected'' [''authorization'' \<mapsto> ''Bearer good'']) = ''/api/protected''
   \<and> credential (get ''/api/protected'' [''authorization'' \<mapsto> ''Bearer good'']) = Some ''Bearer good''
   \<and> verifyToken sample_world ''Bearer good'' = Some ''user-42''
   \<and> snd (app sample_world (fresh Map.empty 0) (get ''/api/protected'' [''authorization'' \<mapsto> ''Bearer good'']))
       = \<lparr>statusCode = 200,
          payload = Json
            [(''message'', JStr ''This is protected data accessible only with valid token''),
             (''userId'', JStr ''user-42'')]\<rparr>"
  using protected_accepts [where req = "get ''/api/protected'' [''authorization'' \<mapsto> ''Bearer good'']"
      and w = sample_world and p = "fresh Map.empty 0" and tok = "''Bearer good''" and uid = "''user-42''"]
  by (simp add: get_def credential_def sample_world_def)

end
